theory Spec2Isabelle
  imports Complex_Main "HOL-Library.Sublist"
begin

section \<open>Data model\<close>

text \<open>
  Document identifiers are strings. A timestamp (\<open>Date.now()\<close>, \<open>new Date()\<close>) is a
  natural number of milliseconds.
\<close>

type_synonym oid = string

subsection \<open>Numbers\<close>

text \<open>
  A JavaScript \<open>Number\<close> is an IEEE 754 double: a finite value, which is a rational, one
  of the two infinities, or NaN. The sign of zero is not modelled.
\<close>

datatype number = Finite rat | PosInf | NegInf | NaN

text \<open>The number of binary digits of a positive integer.\<close>

function bit_length :: "int \<Rightarrow> int" where
  "bit_length n = (if n \<le> 0 then 0 else bit_length (n div 2) + 1)"
  by pat_completeness auto
termination
  by (relation "measure nat") auto

declare bit_length.simps [simp del]

definition pow2 :: "int \<Rightarrow> rat" where
  "pow2 k = (if 0 \<le> k then 2 ^ nat k else 1 / 2 ^ nat (- k))"

text \<open>For \<open>x > 0\<close>, the exponent \<open>e\<close> with \<open>2 ^ e \<le> x < 2 ^ (e + 1)\<close>.\<close>

definition ilog2 :: "rat \<Rightarrow> int" where
  "ilog2 x =
    (if 1 \<le> x then bit_length \<lfloor>x\<rfloor> - 1 else - bit_length (\<lceil>1 / x\<rceil> - 1))"

text \<open>The nearest integer, a tie going to the even one.\<close>

definition round_even :: "rat \<Rightarrow> int" where
  "round_even r =
    (let f = \<lfloor>r\<rfloor>; d = r - of_int f
     in if d < 1 / 2 then f else if 1 / 2 < d then f + 1 else if even f then f else f + 1)"

text \<open>
  Rounding to nearest, ties to even, with 53 significant bits and the least exponent
  \<open>-1074\<close> of the subnormal doubles; the exponent is not bounded above here.
\<close>

definition nearest_double :: "rat \<Rightarrow> rat" where
  "nearest_double x =
    (if x = 0 then 0
     else let q = max (ilog2 \<bar>x\<bar> - 52) (- 1074)
          in of_int (round_even (x / pow2 q)) * pow2 q)"

text \<open>
  The double that an exact result is rounded to: an infinity once the rounded value
  reaches \<open>2 ^ 1024\<close>. It is also the value of a decimal literal of a JSON body.
\<close>

definition to_number :: "rat \<Rightarrow> number" where
  "to_number x =
    (let y = nearest_double x
     in if y = 0 then Finite 0
        else if ilog2 \<bar>y\<bar> < 1024 then Finite y
        else if 0 < y then PosInf else NegInf)"

text \<open>The operators \<open>+\<close>, \<open>*\<close>, \<open>/\<close> and \<open><\<close> on numbers.\<close>

fun js_add :: "number \<Rightarrow> number \<Rightarrow> number" where
  "js_add (Finite a) (Finite b) = to_number (a + b)"
| "js_add NaN y = NaN"
| "js_add x NaN = NaN"
| "js_add PosInf NegInf = NaN"
| "js_add NegInf PosInf = NaN"
| "js_add PosInf y = PosInf"
| "js_add x PosInf = PosInf"
| "js_add NegInf y = NegInf"
| "js_add x NegInf = NegInf"

fun js_mul :: "number \<Rightarrow> number \<Rightarrow> number" where
  "js_mul (Finite a) (Finite b) = to_number (a * b)"
| "js_mul NaN y = NaN"
| "js_mul x NaN = NaN"
| "js_mul (Finite a) PosInf = (if a = 0 then NaN else if 0 < a then PosInf else NegInf)"
| "js_mul (Finite a) NegInf = (if a = 0 then NaN else if 0 < a then NegInf else PosInf)"
| "js_mul PosInf (Finite b) = (if b = 0 then NaN else if 0 < b then PosInf else NegInf)"
| "js_mul NegInf (Finite b) = (if b = 0 then NaN else if 0 < b then NegInf else PosInf)"
| "js_mul PosInf PosInf = PosInf"
| "js_mul NegInf NegInf = PosInf"
| "js_mul PosInf NegInf = NegInf"
| "js_mul NegInf PosInf = NegInf"

fun js_div :: "number \<Rightarrow> number \<Rightarrow> number" where
  "js_div (Finite a) (Finite b) =
    (if b = 0 then (if a = 0 then NaN else if 0 < a then PosInf else NegInf)
     else to_number (a / b))"
| "js_div NaN y = NaN"
| "js_div x NaN = NaN"
| "js_div (Finite a) y = Finite 0"
| "js_div PosInf (Finite b) = (if 0 \<le> b then PosInf else NegInf)"
| "js_div NegInf (Finite b) = (if 0 \<le> b then NegInf else PosInf)"
| "js_div PosInf y = NaN"
| "js_div NegInf y = NaN"

fun js_lt :: "number \<Rightarrow> number \<Rightarrow> bool" where
  "js_lt (Finite a) (Finite b) = (a < b)"
| "js_lt NaN y = False"
| "js_lt x NaN = False"
| "js_lt x NegInf = False"
| "js_lt NegInf y = True"
| "js_lt PosInf y = False"
| "js_lt x PosInf = True"

declare js_add.simps [simp del] js_mul.simps [simp del] js_div.simps [simp del]

text \<open>\<open>x || 0\<close> on a number: 0 for the falsy numbers, which are 0 and NaN.\<close>

definition or_zero :: "number \<Rightarrow> number" where
  "or_zero x = (if x = Finite 0 \<or> x = NaN then Finite 0 else x)"

text \<open>
  A value of a JSON body field, or its absence. Arrays and objects are not modelled.
\<close>

datatype jsval = Undefined | Null | Bool bool | Num number | Str string

text \<open>
  The conversions between strings and numbers, \<open>Number(s)\<close> and \<open>String(x)\<close>, belong
  to the JavaScript engine and are taken as parameters.
\<close>

record js_engine =
  StringToNumber :: "string \<Rightarrow> number"
  NumberToString :: "number \<Rightarrow> string"

text \<open>\<open>!v\<close>.\<close>

fun falsy :: "jsval \<Rightarrow> bool" where
  "falsy Undefined = True"
| "falsy Null = True"
| "falsy (Bool b) = (\<not> b)"
| "falsy (Num x) = (x = Finite 0 \<or> x = NaN)"
| "falsy (Str s) = (s = [])"

text \<open>\<open>ToNumber\<close>, as the relational and arithmetic operators apply it.\<close>

fun ToNumber :: "js_engine \<Rightarrow> jsval \<Rightarrow> number" where
  "ToNumber eng Undefined = NaN"
| "ToNumber eng Null = Finite 0"
| "ToNumber eng (Bool b) = (if b then Finite 1 else Finite 0)"
| "ToNumber eng (Num x) = x"
| "ToNumber eng (Str s) = StringToNumber eng s"

text \<open>\<open>x + v\<close> for a number \<open>x\<close>: concatenation when \<open>v\<close> is a string.\<close>

fun js_plus :: "js_engine \<Rightarrow> number \<Rightarrow> jsval \<Rightarrow> jsval" where
  "js_plus eng x (Str s) = Str (NumberToString eng x @ s)"
| "js_plus eng x v = Num (js_add x (ToNumber eng v))"

text \<open>The Product schema of \<open>models/Product.js\<close>, restricted to the fields the routes read
  or write: \<open>name\<close>, \<open>price\<close>, \<open>isActive\<close>, \<open>rating.average\<close>, \<open>rating.count\<close>.\<close>

record product =
  p_name :: string
  p_price :: number
  isActive :: bool
  rating_average :: number
  rating_count :: number

text \<open>A line item as pushed by \<open>POST /orders\<close> (orders.js, lines 47-52).\<close>

record order_item =
  item_product :: oid
  item_name :: string
  item_price :: number
  item_quantity :: number

text \<open>
  Modelled from the spec: the Order document of \<open>models/Order.js\<close>, which is not among the
  sources. The fields are those of the spec's data model (section 3) under the names the
  routes use for them. \<open>paymentStatus\<close> and \<open>orderStatus\<close> are the strings the routes
  assign (\<open>'pending'\<close>, \<open>'paid'\<close>, \<open>'failed'\<close>, \<open>'processing'\<close>, \<open>'completed'\<close>).
\<close>

record order =
  user :: "oid option"
  guestInfo :: "string option"
  items :: "order_item list"
  totalAmount :: number
  paymentMethod :: string
  shippingAddress :: string
  orderNumber :: string
  paymentStatus :: string
  orderStatus :: string
  paymentSlip :: "(string \<times> nat) option"
  stripePaymentIntent :: "string option"
  order_notes :: "string option"
  processedAt :: "nat option"
  completedAt :: "nat option"

subsection \<open>The payment gateway\<close>

record payment_intent =
  pi_id :: string
  client_secret :: string
  pi_status :: string
  pi_metadata :: "(string \<times> string) list"

record intent_params =
  amount :: number
  currency :: string
  metadata :: "(string \<times> string) list"

record stripe_event =
  ev_type :: string
  ev_object :: payment_intent

text \<open>
  A gateway client, as \<open>new Stripe(key)\<close> returns it. The three operations the routes call
  are its fields; each either throws (\<open>Inl\<close> the error's message) or returns.
  \<open>webhooks_constructEvent\<close> takes the raw body, the \<open>stripe-signature\<close> header and the
  signing secret.
\<close>

record stripe_client =
  paymentIntents_create :: "intent_params \<Rightarrow> string + payment_intent"
  paymentIntents_retrieve :: "string option \<Rightarrow> string + payment_intent"
  webhooks_constructEvent :: "string \<Rightarrow> string option \<Rightarrow> string option \<Rightarrow> string + stripe_event"

subsection \<open>Uploads, object storage, mail\<close>

record upload_file =
  mimetype :: string
  buffer :: string

text \<open>A message handed to \<open>transporter.sendMail\<close>; its HTML body is not modelled.\<close>

record mail =
  mail_from :: string
  mail_to :: string
  mail_subject :: string
  mail_replyTo :: "string option"

text \<open>Calls made to the external collaborators, in the order they are made.\<close>

datatype ext_call =
    CreateIntent intent_params
  | RetrieveIntent "string option"
  | StorageUpload string string
  | SendMail mail

text \<open>
  The document store and the log of external calls. Reading and writing the store is
  taken not to fail, apart from the schema validation written out at the handlers that
  create an order or rate a product.
\<close>

record world =
  orders :: "oid \<rightharpoonup> order"
  products :: "oid \<rightharpoonup> product"
  calls :: "ext_call list"

subsection \<open>Responses\<close>

datatype body =
    Message string
  | Text string
  | IntentCreated string string
  | Confirmed payment_intent
  | Received
  | OrderBody string order
  | ProductBody product
  | ContactOk string

type_synonym response = "nat \<times> body"

section \<open>Payment routes (payments.js)\<close>

text \<open>
  \<open>Model.findById(id)\<close>: \<open>null\<close> for an undefined identifier or one with no document,
  else the document, paired here with its \<open>_id\<close>. Identifiers are taken to be
  well-formed; the CastError that a malformed one raises is not modelled.
\<close>

definition findById :: "(oid \<rightharpoonup> 'a) \<Rightarrow> oid option \<Rightarrow> (oid \<times> 'a) option" where
  "findById m i = (case i of None \<Rightarrow> None | Some k \<Rightarrow> map_option (Pair k) (m k))"

text \<open>
  \<open>Math.round\<close>: the nearest integer, a half rounded towards plus infinity; an
  infinity or NaN is returned as it is. The result is computed exactly: the nearest
  integer of a double is a double.
\<close>

fun Math_round :: "number \<Rightarrow> number" where
  "Math_round (Finite x) = Finite (of_int \<lfloor>x + 1 / 2\<rfloor>)"
| "Math_round x = x"

text \<open>
  \<open>POST /create-payment-intent\<close> (lines 9-52). \<open>new_Stripe\<close> is the outcome of lines 12-13,
  the dynamic import and \<open>new Stripe(process.env.STRIPE_SECRET_KEY)\<close>; \<open>uid\<close> is
  \<open>req.user._id\<close> as the \<open>authenticate\<close> middleware leaves it; \<open>orderId\<close> is the body's
  field. \<open>order.user.toString()\<close> on an order without a user (a guest order) throws a
  TypeError, which the handler's \<open>catch\<close> turns into a 500.
\<close>

definition create_payment_intent ::
  "string + stripe_client \<Rightarrow> oid \<Rightarrow> oid option \<Rightarrow> world \<Rightarrow> world \<times> response" where
  "create_payment_intent new_Stripe uid orderId w =
    (case new_Stripe of
       Inl e \<Rightarrow> (w, (500, Message e))
     | Inr stripe \<Rightarrow>
        (case findById (orders w) orderId of
           None \<Rightarrow> (w, (404, Message ''Order not found''))
         | Some (k, order) \<Rightarrow>
            (case user order of
               None \<Rightarrow> (w, (500, Message ''Cannot read properties of null (reading 'toString')''))
             | Some owner \<Rightarrow>
                if owner \<noteq> uid then (w, (403, Message ''Access denied''))
                else
                  let params = \<lparr>amount = Math_round (js_mul (totalAmount order) (Finite 100)),
                                currency = ''usd'',
                                metadata = [(''orderId'', k),
                                            (''orderNumber'', orderNumber order)]\<rparr>;
                      w1 = w\<lparr>calls := calls w @ [CreateIntent params]\<rparr>
                  in (case paymentIntents_create stripe params of
                        Inl e \<Rightarrow> (w1, (500, Message e))
                      | Inr paymentIntent \<Rightarrow>
                          (w1\<lparr>orders := (orders w1)(k \<mapsto>
                                 order\<lparr>stripePaymentIntent := Some (pi_id paymentIntent)\<rparr>)\<rparr>,
                           (200, IntentCreated (client_secret paymentIntent)
                                               (pi_id paymentIntent)))))))"

text \<open>
  The identifier \<open>stripe\<close> in the other two handlers. payments.js imports the class
  \<open>Stripe\<close> (line 2) and declares \<open>const stripe\<close> only inside the \<open>try\<close> block of the
  create-payment-intent handler (line 13); at lines 59 and 82 \<open>stripe\<close> is a free
  identifier of the module. The two handlers are modelled with the binding of that
  identifier as a parameter (\<open>None\<close>: not declared, evaluating it throws the
  ReferenceError \<open>stripe is not defined\<close>), and the module's own scope is
  \<open>module_stripe\<close>.
\<close>

definition module_stripe :: "stripe_client option" where
  "module_stripe = None"

text \<open>The outcome of line 59, \<open>stripe.paymentIntents.retrieve(paymentIntentId)\<close>.\<close>

definition retrieve_outcome :: "stripe_client option \<Rightarrow> string option \<Rightarrow> string + payment_intent" where
  "retrieve_outcome stripe paymentIntentId =
    (case stripe of
       None \<Rightarrow> Inl ''stripe is not defined''
     | Some c \<Rightarrow> paymentIntents_retrieve c paymentIntentId)"

text \<open>The gateway calls line 59 makes: none when evaluating \<open>stripe\<close> already throws.\<close>

definition retrieve_calls :: "stripe_client option \<Rightarrow> string option \<Rightarrow> ext_call list" where
  "retrieve_calls stripe paymentIntentId =
    (case stripe of None \<Rightarrow> [] | Some c \<Rightarrow> [RetrieveIntent paymentIntentId])"

text \<open>\<open>POST /confirm-payment\<close> (lines 55-74), under a given binding of \<open>stripe\<close>.\<close>

definition confirm_payment_handler ::
  "stripe_client option \<Rightarrow> string option \<Rightarrow> world \<Rightarrow> world \<times> response" where
  "confirm_payment_handler stripe paymentIntentId w =
    (let w1 = w\<lparr>calls := calls w @ retrieve_calls stripe paymentIntentId\<rparr>
     in case retrieve_outcome stripe paymentIntentId of
          Inl e \<Rightarrow> (w1, (500, Message e))
        | Inr paymentIntent \<Rightarrow>
           if pi_status paymentIntent = ''succeeded'' then
             (case findById (orders w1) (map_of (pi_metadata paymentIntent) ''orderId'') of
                None \<Rightarrow> (w1, (200, Confirmed paymentIntent))
              | Some (k, order) \<Rightarrow>
                 (w1\<lparr>orders := (orders w1)(k \<mapsto>
                        order\<lparr>paymentStatus := ''paid'', orderStatus := ''processing''\<rparr>)\<rparr>,
                  (200, Confirmed paymentIntent)))
           else (w1, (200, Confirmed paymentIntent)))"

text \<open>The route as the module defines it.\<close>

definition confirm_payment :: "string option \<Rightarrow> world \<Rightarrow> world \<times> response" where
  "confirm_payment = confirm_payment_handler module_stripe"

text \<open>The outcome of line 82, \<open>stripe.webhooks.constructEvent(req.body, sig, secret)\<close>.\<close>

definition constructEvent_outcome ::
  "stripe_client option \<Rightarrow> string \<Rightarrow> string option \<Rightarrow> string option \<Rightarrow> string + stripe_event" where
  "constructEvent_outcome stripe raw sig secret =
    (case stripe of
       None \<Rightarrow> Inl ''stripe is not defined''
     | Some c \<Rightarrow> webhooks_constructEvent c raw sig secret)"

text \<open>
  \<open>POST /webhook\<close> (lines 77-101), under a given binding of \<open>stripe\<close>. \<open>secret\<close> is
  \<open>process.env.STRIPE_WEBHOOK_SECRET\<close>, \<open>raw\<close> the request body and \<open>sig\<close> the
  \<open>stripe-signature\<close> header.
\<close>

definition webhook_handler ::
  "stripe_client option \<Rightarrow> string option \<Rightarrow> string \<Rightarrow> string option \<Rightarrow> world \<Rightarrow> world \<times> response" where
  "webhook_handler stripe secret raw sig w =
    (case constructEvent_outcome stripe raw sig secret of
       Inl err \<Rightarrow> (w, (400, Text (''Webhook Error: '' @ err)))
     | Inr event \<Rightarrow>
        if ev_type event = ''payment_intent.succeeded'' then
          (case findById (orders w) (map_of (pi_metadata (ev_object event)) ''orderId'') of
             None \<Rightarrow> (w, (200, Received))
           | Some (k, order) \<Rightarrow>
              (w\<lparr>orders := (orders w)(k \<mapsto>
                     order\<lparr>paymentStatus := ''paid'', orderStatus := ''processing''\<rparr>)\<rparr>,
               (200, Received)))
        else (w, (200, Received)))"

definition webhook :: "string option \<Rightarrow> string \<Rightarrow> string option \<Rightarrow> world \<Rightarrow> world \<times> response" where
  "webhook = webhook_handler module_stripe"

section \<open>Order routes (orders.js)\<close>

subsection \<open>Order creation\<close>

text \<open>An element of the request's \<open>items\<close> array; \<open>quantity\<close> is a number.\<close>

record req_item =
  productId :: oid
  quantity :: number

record order_req =
  req_items :: "req_item list"
  req_guestInfo :: "string option"
  req_paymentMethod :: string
  req_shippingAddress :: string

text \<open>\<open>String(n)\<close> for a non-negative integer: its decimal digits.\<close>

fun String_nat :: "nat \<Rightarrow> string" where
  "String_nat n =
    (if n < 10 then [''0123456789'' ! n]
     else String_nat (n div 10) @ [''0123456789'' ! (n mod 10)])"

declare String_nat.simps [simp del]

definition padStart :: "nat \<Rightarrow> char \<Rightarrow> string \<Rightarrow> string" where
  "padStart n c s = replicate (n - length s) c @ s"

text \<open>
  The loop of lines 41-55: \<open>amount'\<close> and \<open>orderItems\<close> are \<open>totalAmount\<close> and
  \<open>orderItems\<close> so far. A product that is missing or inactive ends the request with the 400 message.
\<close>

fun collect_items ::
  "(oid \<rightharpoonup> product) \<Rightarrow> req_item list \<Rightarrow> number \<Rightarrow> order_item list
    \<Rightarrow> string + (number \<times> order_item list)" where
  "collect_items ps [] amount' orderItems = Inr (amount', orderItems)"
| "collect_items ps (item # rest) amount' orderItems =
    (case findById ps (Some (productId item)) of
       None \<Rightarrow> Inl (''Product '' @ productId item @ '' not found or inactive'')
     | Some (k, p) \<Rightarrow>
        if \<not> isActive p then Inl (''Product '' @ productId item @ '' not found or inactive'')
        else collect_items ps rest (js_add amount' (js_mul (p_price p) (quantity item)))
               (orderItems @ [\<lparr>item_product = k, item_name = p_name p, item_price = p_price p,
                        item_quantity = quantity item\<rparr>]))"

text \<open>
  \<open>POST /orders\<close> (lines 33-83). \<open>req_user\<close> is \<open>req.user?._id\<close> as \<open>optionalAuth\<close> leaves
  it. \<open>orderData\<close> never has an \<open>orderNumber\<close>, so the test of line 67 always holds and
  the number is always computed from \<open>Order.countDocuments()\<close>.

  Modelled from the spec: \<open>new Order(orderData)\<close> and \<open>order.save()\<close>, whose schema
  (\<open>models/Order.js\<close>) is not among the sources. \<open>schema_ok\<close> is the schema's validation
  of the new document and \<open>new_id\<close> the \<open>_id\<close> it is given; both statuses start as
  \<open>'pending'\<close> (spec, section 3), the optional fields are absent. The text of the
  validation error is not modelled.
\<close>

definition create_order ::
  "(order \<Rightarrow> bool) \<Rightarrow> oid \<Rightarrow> oid option \<Rightarrow> order_req \<Rightarrow> world \<Rightarrow> world \<times> response" where
  "create_order schema_ok new_id req_user req w =
    (case collect_items (products w) (req_items req) (Finite 0) [] of
       Inl msg \<Rightarrow> (w, (400, Message msg))
     | Inr (amount', orderItems) \<Rightarrow>
        let count = card (dom (orders w));
            order = \<lparr>user = req_user,
                     guestInfo = (if req_user \<noteq> None then None else req_guestInfo req),
                     items = orderItems,
                     totalAmount = amount',
                     paymentMethod = req_paymentMethod req,
                     shippingAddress = req_shippingAddress req,
                     orderNumber = ''CSH-'' @ padStart 6 CHR ''0'' (String_nat (count + 1)),
                     paymentStatus = ''pending'',
                     orderStatus = ''pending'',
                     paymentSlip = None,
                     stripePaymentIntent = None,
                     order_notes = None,
                     processedAt = None,
                     completedAt = None\<rparr>
        in if \<not> schema_ok order then (w, (400, Message ''Order validation failed''))
           else (w\<lparr>orders := (orders w)(new_id \<mapsto> order)\<rparr>,
                 (201, OrderBody ''Order created successfully'' order)))"

subsection \<open>Payment-slip upload\<close>

text \<open>The multer configuration of lines 18-30.\<close>

definition fileSize :: nat where
  "fileSize = 5 * 1024 * 1024"

definition fileFilter :: "upload_file \<Rightarrow> string + bool" where
  "fileFilter file =
    (if prefix ''image/'' (mimetype file) then Inr True
     else Inl ''Only image files are allowed'')"

text \<open>
  \<open>upload.single('paymentSlip')\<close>: multer asks \<open>fileFilter\<close> when the file part starts,
  buffers an accepted file in memory and fails with \<open>File too large\<close> once the file
  exceeds \<open>limits.fileSize\<close> bytes. \<open>Inl\<close> is the error passed to \<open>next\<close>; \<open>Inr\<close> is
  \<open>req.file\<close>.
\<close>

definition upload_single :: "upload_file option \<Rightarrow> string + upload_file option" where
  "upload_single part =
    (case part of
       None \<Rightarrow> Inr None
     | Some file \<Rightarrow>
        (case fileFilter file of
           Inl e \<Rightarrow> Inl e
         | Inr accept \<Rightarrow>
            if \<not> accept then Inr None
            else if length (buffer file) > fileSize then Inl ''File too large''
            else Inr (Some file)))"

text \<open>
  The handler of \<open>POST /orders/:id/payment-slip\<close> (lines 132-179). \<open>upload_stream\<close> is
  the object storage: given the public id and the bytes it fails or returns the
  \<open>secure_url\<close>. \<open>now\<close> is \<open>Date.now()\<close> of line 154 and \<open>uploadedAt\<close> the
  \<open>new Date()\<close> of line 166.
\<close>

definition payment_slip_handler ::
  "(string \<Rightarrow> string \<Rightarrow> string + string) \<Rightarrow> nat \<Rightarrow> nat \<Rightarrow> oid \<Rightarrow> upload_file option
    \<Rightarrow> world \<Rightarrow> world \<times> response" where
  "payment_slip_handler upload_stream now uploadedAt i req_file w =
    (case findById (orders w) (Some i) of
       None \<Rightarrow> (w, (404, Message ''Order not found''))
     | Some (k, order) \<Rightarrow>
        if paymentMethod order \<noteq> ''bank_transfer'' then
          (w, (400, Message ''Payment slip upload only allowed for bank transfer orders''))
        else
          (case req_file of
             None \<Rightarrow> (w, (400, Message ''No file uploaded''))
           | Some file \<Rightarrow>
              let public_id = ''slip_'' @ orderNumber order @ ''_'' @ String_nat now;
                  w1 = w\<lparr>calls := calls w @ [StorageUpload public_id (buffer file)]\<rparr>
              in (case upload_stream public_id (buffer file) of
                    Inl e \<Rightarrow> (w1, (500, Message e))
                  | Inr secure_url \<Rightarrow>
                     let order' = order\<lparr>paymentSlip := Some (secure_url, uploadedAt),
                                        paymentStatus := ''pending''\<rparr>
                     in (w1\<lparr>orders := (orders w1)(k \<mapsto> order')\<rparr>,
                         (200, OrderBody ''Payment slip uploaded successfully'' order')))))"

text \<open>
  The route: the multer middleware, then the handler. An error of the middleware goes to
  the application's error handler (\<open>middleware/errorHandler.js\<close>, not among the
  sources), taken as the parameter \<open>errorHandler\<close>; the handler does not run.
\<close>

definition payment_slip ::
  "(string \<Rightarrow> response) \<Rightarrow> (string \<Rightarrow> string \<Rightarrow> string + string) \<Rightarrow> nat \<Rightarrow> nat \<Rightarrow> oid
    \<Rightarrow> upload_file option \<Rightarrow> world \<Rightarrow> world \<times> response" where
  "payment_slip errorHandler upload_stream now uploadedAt i part w =
    (case upload_single part of
       Inl e \<Rightarrow> (w, errorHandler e)
     | Inr req_file \<Rightarrow> payment_slip_handler upload_stream now uploadedAt i req_file w)"

section \<open>Admin routes (admin.js)\<close>

text \<open>
  \<open>PUT /admin/orders/:id/status\<close> (lines 231-262). The two body fields are strings or
  absent; a field is written when it is truthy, that is a non-empty string.
  \<open>findByIdAndUpdate\<close> writes \<open>updateData\<close> as it is.
\<close>

definition updateData :: "nat \<Rightarrow> string option \<Rightarrow> string option \<Rightarrow> order \<Rightarrow> order" where
  "updateData now orderStatus' paymentStatus' order =
    (let o1 = (case orderStatus' of
                 None \<Rightarrow> order
               | Some s \<Rightarrow> if s \<noteq> [] then order\<lparr>orderStatus := s\<rparr> else order);
         o2 = (case paymentStatus' of
                 None \<Rightarrow> o1
               | Some s \<Rightarrow> if s \<noteq> [] then o1\<lparr>paymentStatus := s\<rparr> else o1)
     in if orderStatus' = Some ''processing'' then o2\<lparr>processedAt := Some now\<rparr>
        else if orderStatus' = Some ''completed'' then o2\<lparr>completedAt := Some now\<rparr>
        else o2)"

definition update_order_status ::
  "nat \<Rightarrow> oid \<Rightarrow> string option \<Rightarrow> string option \<Rightarrow> world \<Rightarrow> world \<times> response" where
  "update_order_status now i orderStatus' paymentStatus' w =
    (case findById (orders w) (Some i) of
       None \<Rightarrow> (w, (404, Message ''Order not found''))
     | Some (k, order) \<Rightarrow>
        let order' = updateData now orderStatus' paymentStatus' order
        in (w\<lparr>orders := (orders w)(k \<mapsto> order')\<rparr>,
            (200, OrderBody ''Order updated successfully'' order')))"

text \<open>
  \<open>PUT /admin/payment-slips/:id/verify\<close> (lines 296-317). \<open>approved\<close> is the truthiness
  of the body's field.
\<close>

definition verify_payment_slip ::
  "oid \<Rightarrow> bool \<Rightarrow> string option \<Rightarrow> world \<Rightarrow> world \<times> response" where
  "verify_payment_slip i approved notes' w =
    (case findById (orders w) (Some i) of
       None \<Rightarrow> (w, (404, Message ''Order not found''))
     | Some (k, order) \<Rightarrow>
        let o1 = order\<lparr>paymentStatus := (if approved then ''paid'' else ''failed'')\<rparr>;
            o2 = (case notes' of
                    None \<Rightarrow> o1
                  | Some s \<Rightarrow> if s \<noteq> [] then o1\<lparr>order_notes := Some s\<rparr> else o1)
        in (w\<lparr>orders := (orders w)(k \<mapsto> o2)\<rparr>,
            (200, OrderBody (''Payment '' @ (if approved then ''approved'' else ''rejected'')
                              @ '' successfully'') o2)))"

section \<open>Product rating (products.js)\<close>

text \<open>
  \<open>product.save()\<close> validates the document against the Product schema. Of the paths the
  rating handler writes, \<open>rating.average\<close> has the validators \<open>min: 0\<close> and \<open>max: 5\<close>,
  which an infinity fails, and both are cast to Number, which NaN fails.
\<close>

fun rating_valid :: "number \<Rightarrow> bool" where
  "rating_valid (Finite avg) = (0 \<le> avg \<and> avg \<le> 5)"
| "rating_valid x = False"

definition save_accepts :: "number \<Rightarrow> number \<Rightarrow> bool" where
  "save_accepts newAvg newCount = (rating_valid newAvg \<and> newCount \<noteq> NaN)"

text \<open>
  \<open>POST /products/:id/rate\<close> (lines 211-234). \<open>rating\<close> is the body's field. A string
  rating is compared as a number at line 214 and concatenated by the \<open>+\<close> of line 225,
  the quotient being taken of the number the concatenation reads as. A failing \<open>save\<close>
  throws and the handler answers 500; the text of the validation error is not modelled.
\<close>

definition rate_product ::
  "js_engine \<Rightarrow> oid \<Rightarrow> jsval \<Rightarrow> world \<Rightarrow> world \<times> response" where
  "rate_product eng i rating w =
    (if falsy rating \<or> js_lt (ToNumber eng rating) (Finite 1)
        \<or> js_lt (Finite 5) (ToNumber eng rating) then
       (w, (400, Message ''Rating must be between 1 and 5''))
     else
       (case findById (products w) (Some i) of
          None \<Rightarrow> (w, (404, Message ''Product not found''))
        | Some (k, product) \<Rightarrow>
           if \<not> isActive product then (w, (404, Message ''Product not found''))
           else
             let prevAvg = or_zero (rating_average product);
                 prevCount = or_zero (rating_count product);
                 newCount = js_add prevCount (Finite 1);
                 newAvg = js_div (ToNumber eng (js_plus eng (js_mul prevAvg prevCount) rating))
                            newCount
             in if \<not> save_accepts newAvg newCount then
                  (w, (500, Message ''Product validation failed''))
                else
                  let product' = product\<lparr>rating_average := newAvg, rating_count := newCount\<rparr>
                  in (w\<lparr>products := (products w)(k \<mapsto> product')\<rparr>,
                      (200, ProductBody product'))))"

section \<open>Contact form (contact.js)\<close>

record contact_form =
  c_name :: "string option"
  c_email :: "string option"
  c_phone :: "string option"
  c_subject :: "string option"
  c_message :: "string option"
  c_company :: "string option"

text \<open>The environment variables the handler reads.\<close>

record mail_env =
  SMTP_USER :: "string option"
  SMTP_PASS :: "string option"
  ADMIN_EMAIL :: "string option"

text \<open>A body field or environment variable is truthy when it is a non-empty string.\<close>

definition truthy :: "string option \<Rightarrow> bool" where
  "truthy v = (case v of None \<Rightarrow> False | Some s \<Rightarrow> s \<noteq> [])"

text \<open>\<open>v || d\<close> on strings.\<close>

definition or_else :: "string option \<Rightarrow> string \<Rightarrow> string" where
  "or_else v d = (case v of None \<Rightarrow> d | Some s \<Rightarrow> if s \<noteq> [] then s else d)"

text \<open>
  The regular expression of line 20, \<open>/^[^\s@]+@[^\s@]+\.[^\s@]+$/\<close>. Strings are byte
  strings here, so of the characters of \<open>\s\<close> only the ASCII ones are covered: tab, line
  feed, vertical tab, form feed, carriage return and space.
\<close>

definition not_space_at :: "char \<Rightarrow> bool" where
  "not_space_at c =
    (c \<notin> set [CHR 0x09, CHR 0x0A, CHR 0x0B, CHR 0x0C, CHR 0x0D, CHR 0x20, CHR ''@''])"

definition emailRegex_test :: "string \<Rightarrow> bool" where
  "emailRegex_test s =
    (let local = takeWhile not_space_at s
     in local \<noteq> [] \<and>
        (case dropWhile not_space_at s of
           [] \<Rightarrow> False
         | c # d \<Rightarrow> c = CHR ''@'' \<and> list_all not_space_at d \<and> CHR ''.'' \<in> set (butlast (tl d))))"

text \<open>
  The transporter. \<open>createTransporter\<close> is the value of the property
  \<open>nodemailer.createTransporter\<close> read at line 26: \<open>None\<close> when the module has no such
  member (calling it throws a TypeError), else the \<open>sendMail\<close> of the transporter that
  the call returns. The nodemailer package exports \<open>createTransport\<close>,
  \<open>createTestAccount\<close> and \<open>getTestMessageUrl\<close>; it has no member
  \<open>createTransporter\<close>.
\<close>

definition nodemailer_createTransporter :: "(mail \<Rightarrow> string + unit) option" where
  "nodemailer_createTransporter = None"

text \<open>
  Lines 68-89: the two messages, sent in turn when both SMTP variables are set. The
  first failure skips what is left of the inner \<open>try\<close>; the inner \<open>catch\<close> logs it.
  The result is the list of messages handed to \<open>sendMail\<close>.
\<close>

definition send_notifications ::
  "(mail \<Rightarrow> string + unit) \<Rightarrow> mail_env \<Rightarrow> string \<Rightarrow> string \<Rightarrow> mail list" where
  "send_notifications sendMail env email subject =
    (if truthy (SMTP_USER env) \<and> truthy (SMTP_PASS env) then
       let admin = \<lparr>mail_from = or_else (SMTP_USER env) [],
                     mail_to = or_else (ADMIN_EMAIL env) ''admin@ceylonsoftwarehub.com'',
                     mail_subject = ''Contact Form: '' @ subject,
                     mail_replyTo = Some email\<rparr>;
           confirmation = \<lparr>mail_from = or_else (SMTP_USER env) [],
                            mail_to = email,
                            mail_subject = ''Thank you for contacting Ceylon Software Hub'',
                            mail_replyTo = None\<rparr>
       in (case sendMail admin of
             Inl emailError \<Rightarrow> [admin]
           | Inr _ \<Rightarrow> [admin, confirmation])
     else [])"

text \<open>
  The handler of \<open>POST /contact\<close> (lines 8-105), given the value of
  \<open>nodemailer.createTransporter\<close>.
\<close>

definition contact_handler ::
  "(mail \<Rightarrow> string + unit) option \<Rightarrow> mail_env \<Rightarrow> contact_form \<Rightarrow> world \<Rightarrow> world \<times> response" where
  "contact_handler createTransporter env form w =
    (if \<not> truthy (c_name form) \<or> \<not> truthy (c_email form) \<or> \<not> truthy (c_subject form)
        \<or> \<not> truthy (c_message form) then
       (w, (400, Message ''Name, email, subject, and message are required''))
     else if \<not> emailRegex_test (or_else (c_email form) []) then
       (w, (400, Message ''Invalid email format''))
     else
       (case createTransporter of
          None \<Rightarrow> (w, (500, Message ''Failed to send message. Please try again later.''))
        | Some sendMail \<Rightarrow>
           (w\<lparr>calls := calls w @ map SendMail
                 (send_notifications sendMail env (or_else (c_email form) [])
                    (or_else (c_subject form) []))\<rparr>,
            (200, ContactOk ''Message sent successfully! We will get back to you soon.''))))"

text \<open>The route, with the nodemailer module as it is.\<close>

definition contact :: "mail_env \<Rightarrow> contact_form \<Rightarrow> world \<Rightarrow> world \<times> response" where
  "contact = contact_handler nodemailer_createTransporter"

section \<open>Sample data\<close>

text \<open>A small store and collaborators on which the results below are evaluated.\<close>

text \<open>A product priced 0.1, rated 4 by two users.\<close>

definition ex_product :: product where
  "ex_product = \<lparr>p_name = ''Editor'', p_price = to_number (1 / 10), isActive = True,
                  rating_average = Finite 4, rating_count = Finite 2\<rparr>"

text \<open>The same product with a stored rating count of -1.\<close>

definition ex_miscounted :: product where
  "ex_miscounted = ex_product\<lparr>rating_count := Finite (- 1)\<rparr>"

text \<open>A card order of 1.005, written \<open>201 / 200\<close>.\<close>

definition ex_card_order :: order where
  "ex_card_order =
    \<lparr>user = Some ''u1'', guestInfo = None,
     items = [\<lparr>item_product = ''p1'', item_name = ''Editor'',
               item_price = to_number (201 / 200), item_quantity = Finite 1\<rparr>],
     totalAmount = to_number (201 / 200), paymentMethod = ''card'',
     shippingAddress = ''Colombo'',
     orderNumber = ''CSH-000001'', paymentStatus = ''pending'', orderStatus = ''pending'',
     paymentSlip = None, stripePaymentIntent = None, order_notes = None,
     processedAt = None, completedAt = None\<rparr>"

text \<open>A bank-transfer order whose slip an admin has approved.\<close>

definition ex_bank_order :: order where
  "ex_bank_order =
    ex_card_order\<lparr>paymentMethod := ''bank_transfer'', orderNumber := ''CSH-000002'',
                  paymentStatus := ''paid'',
                  paymentSlip := Some (''https://cdn.example/slip1.png'', 1000)\<rparr>"

definition ex_world :: world where
  "ex_world = \<lparr>orders = [''o1'' \<mapsto> ex_card_order, ''o2'' \<mapsto> ex_bank_order],
               products = [''p1'' \<mapsto> ex_product, ''p2'' \<mapsto> ex_miscounted], calls = []\<rparr>"

definition ex_intent :: payment_intent where
  "ex_intent = \<lparr>pi_id = ''pi_1'', client_secret = ''pi_1_secret'', pi_status = ''succeeded'',
                pi_metadata = [(''orderId'', ''o1''), (''orderNumber'', ''CSH-000001'')]\<rparr>"

text \<open>A gateway that knows one intent and accepts one signature.\<close>

definition ex_stripe :: stripe_client where
  "ex_stripe =
    \<lparr>paymentIntents_create =
       (\<lambda>p. if js_lt (Finite 0) (amount p)
            then Inr \<lparr>pi_id = ''pi_1'', client_secret = ''pi_1_secret'',
                      pi_status = ''requires_payment_method'', pi_metadata = metadata p\<rparr>
            else Inl ''Invalid positive integer''),
     paymentIntents_retrieve =
       (\<lambda>i. if i = Some ''pi_1'' then Inr ex_intent else Inl ''No such payment_intent''),
     webhooks_constructEvent =
       (\<lambda>raw sig secret.
          if sig = Some ''t=1,v1=5257a8'' \<and> secret = Some ''whsec_test''
          then Inr \<lparr>ev_type = ''payment_intent.succeeded'', ev_object = ex_intent\<rparr>
          else Inl ''No signatures found matching the expected signature for payload'')\<rparr>"

text \<open>A gateway that is unreachable.\<close>

definition ex_down :: stripe_client where
  "ex_down =
    \<lparr>paymentIntents_create = (\<lambda>p. Inl ''An error occurred with our connection to Stripe.''),
     paymentIntents_retrieve = (\<lambda>i. Inl ''An error occurred with our connection to Stripe.''),
     webhooks_constructEvent =
       (\<lambda>raw sig secret. Inl ''No stripe-signature header value was provided.'')\<rparr>"

definition ex_image :: upload_file where
  "ex_image = \<lparr>mimetype = ''image/png'', buffer = replicate 2048 (CHR 0x00)\<rparr>"

definition ex_pdf :: upload_file where
  "ex_pdf = \<lparr>mimetype = ''application/pdf'', buffer = replicate 2048 (CHR 0x00)\<rparr>"

definition ex_huge :: upload_file where
  "ex_huge = \<lparr>mimetype = ''image/jpeg'', buffer = replicate 5242881 (CHR 0x00)\<rparr>"

definition ex_storage :: "string \<Rightarrow> string \<Rightarrow> string + string" where
  "ex_storage public_id bytes = Inr (''https://cdn.example/payment-slips/'' @ public_id)"

definition ex_errorHandler :: "string \<Rightarrow> response" where
  "ex_errorHandler e = (500, Message e)"

text \<open>
  A JavaScript engine, given at the three conversions the sample data needs:
  \<open>Number('3')\<close>, \<open>Number('83')\<close> and \<open>String(8)\<close>.
\<close>

definition ex_engine :: js_engine where
  "ex_engine =
    \<lparr>StringToNumber =
       (\<lambda>s. if s = ''3'' then Finite 3 else if s = ''83'' then Finite 83 else NaN),
     NumberToString = (\<lambda>x. if x = Finite 8 then ''8'' else ''NaN'')\<rparr>"

definition ex_req :: order_req where
  "ex_req = \<lparr>req_items = [\<lparr>productId = ''p1'', quantity = Finite 1\<rparr>,
                          \<lparr>productId = ''p1'', quantity = Finite 1\<rparr>,
                          \<lparr>productId = ''p1'', quantity = Finite 1\<rparr>],
             req_guestInfo = None, req_paymentMethod = ''card'',
             req_shippingAddress = ''Kandy''\<rparr>"

definition ex_schema_ok :: "order \<Rightarrow> bool" where
  "ex_schema_ok order =
    (paymentMethod order \<in> set [''card'', ''bank_transfer''] \<and> items order \<noteq> [])"

definition ex_form :: contact_form where
  "ex_form = \<lparr>c_name = Some ''Nimal'', c_email = Some ''nimal@example.com'', c_phone = None,
              c_subject = Some ''Licence'', c_message = Some ''Hello'', c_company = None\<rparr>"

definition ex_env :: mail_env where
  "ex_env = \<lparr>SMTP_USER = Some ''hub@example.com'', SMTP_PASS = Some ''secret'',
             ADMIN_EMAIL = None\<rparr>"

section \<open>Auxiliary facts\<close>

lemma findById_Some_iff: "findById m i = Some (k, d) \<longleftrightarrow> i = Some k \<and> m k = Some d"
  by (cases i) (auto simp: findById_def)

lemma findById_present: "m k = Some d \<Longrightarrow> findById m (Some k) = Some (k, d)"
  by (simp add: findById_def)

text \<open>
  Double arithmetic at the sample data: 0.1 added three times, 1.005 in cents, the
  averages of the rated product, and the quotient at a new count of 0.
\<close>

lemma three_tenths:
  "js_add (js_add (js_add (Finite 0) (js_mul (to_number (1 / 10)) (Finite 1)))
        (js_mul (to_number (1 / 10)) (Finite 1))) (js_mul (to_number (1 / 10)) (Finite 1))
     = Finite (1351079888211149 / 4503599627370496)"
  by code_simp

lemma cents_of_1005: "Math_round (js_mul (to_number (201 / 200)) (Finite 100)) = Finite 100"
  by code_simp

lemma average_13_3:
  "js_div (js_add (js_mul (Finite 4) (Finite 2)) (Finite 5)) (Finite 3)
     = Finite (4878899596318037 / 1125899906842624)"
  "js_add (Finite 2) (Finite 1) = Finite 3"
  by code_simp+

lemma average_count_zero:
  "js_div (js_add (js_mul (Finite 4) (Finite (- 1))) (Finite 3)) (Finite 0) = NegInf"
  "js_add (Finite (- 1)) (Finite 1) = Finite 0"
  by code_simp+

lemma eight: "js_mul (Finite 4) (Finite 2) = Finite 8"
  by code_simp

lemma eighty_three_thirds:
  "js_div (Finite 83) (Finite 3) = Finite (7787474355661483 / 281474976710656)"
  by code_simp

lemma js_add_one_not_NaN: "x \<noteq> NaN \<Longrightarrow> js_add x (Finite 1) \<noteq> NaN"
  by (cases x) (simp_all add: js_add.simps to_number_def Let_def)

lemma or_zero_not_NaN: "or_zero x \<noteq> NaN"
  by (simp add: or_zero_def)

lemma Math_round_cases:
  "Math_round z = (case z of Finite x \<Rightarrow> Finite (of_int \<lfloor>x + 1 / 2\<rfloor>) | y \<Rightarrow> y)"
  by (cases z) simp_all

text \<open>
  Rounding a value between 0 and an integer below \<open>2 ^ 53\<close> gives a finite double
  between 0 and that integer, and such an integer is itself a double. Hence the new
  average of a rating lies within the schema's bounds whenever the stored average does
  and the stored count is a whole number from 0 up to \<open>2 ^ 50\<close>.
\<close>

lemma bit_length_nonneg: "0 \<le> bit_length n"
  by (induction n rule: bit_length.induct) (subst bit_length.simps, simp)

lemma bit_length_le: "n < 2 ^ k \<Longrightarrow> bit_length n \<le> int k"
proof (induction k arbitrary: n)
  case 0
  then have "n \<le> 0" by simp
  then show ?case by (subst bit_length.simps) simp
next
  case (Suc k)
  show ?case
  proof (cases "n \<le> 0")
    case True
    then show ?thesis by (subst bit_length.simps) simp
  next
    case False
    from Suc.prems have "n div 2 < 2 ^ k" by simp
    from Suc.IH [OF this] False show ?thesis
      by (subst bit_length.simps) simp
  qed
qed

lemma ilog2_le_52: "0 < x \<Longrightarrow> x < 2 ^ 53 \<Longrightarrow> ilog2 x \<le> 52"
proof (cases "1 \<le> x")
  case True
  assume "x < 2 ^ 53"
  then have "\<lfloor>x\<rfloor> < 2 ^ 53" by (simp add: floor_less_iff)
  from bit_length_le [OF this] True show ?thesis by (simp add: ilog2_def)
next
  case False
  with bit_length_nonneg [of "\<lceil>1 / x\<rceil> - 1"] show ?thesis by (simp add: ilog2_def)
qed

lemma round_even_le: "r \<le> of_int M \<Longrightarrow> round_even r \<le> M"
proof -
  assume r: "r \<le> of_int M"
  then have f: "\<lfloor>r\<rfloor> \<le> M" by (simp add: floor_le_iff) 
  show ?thesis
  proof (cases "r - of_int \<lfloor>r\<rfloor> < 1 / 2")
    case True
    with f show ?thesis by (simp add: round_even_def Let_def)
  next
    case False
    then have "of_int \<lfloor>r\<rfloor> < r" by simp
    with r have "of_int \<lfloor>r\<rfloor> < (of_int M :: rat)" by simp
    then have "\<lfloor>r\<rfloor> < M" by simp
    then show ?thesis using f by (simp add: round_even_def Let_def)
  qed
qed

lemma round_even_nonneg: "0 \<le> r \<Longrightarrow> 0 \<le> round_even r"
proof -
  assume "0 \<le> r"
  then have "0 \<le> \<lfloor>r\<rfloor>" by simp
  then show ?thesis by (simp add: round_even_def Let_def)
qed

lemma round_even_of_int: "round_even (of_int n) = n"
  by (simp add: round_even_def Let_def)

lemma pow2_pos: "0 < pow2 k"
  by (simp add: pow2_def)

lemma of_int_div_pow2: "q \<le> 0 \<Longrightarrow> of_int N / pow2 q = of_int (N * 2 ^ nat (- q))"
  by (simp add: pow2_def)

lemma of_int_mult_pow2: "q \<le> 0 \<Longrightarrow> of_int (N * 2 ^ nat (- q)) * pow2 q = of_int N"
  by (simp add: pow2_def)

lemma nearest_double_below:
  assumes "0 \<le> x" and "x \<le> of_int N" and "N < 2 ^ 53"
  shows "0 \<le> nearest_double x \<and> nearest_double x \<le> of_int N"
proof (cases "x = 0")
  case True
  with assms show ?thesis by (simp add: nearest_double_def)
next
  case False
  with assms have pos: "0 < x" by simp
  have "x < 2 ^ 53"
  proof -
    have "(of_int N :: rat) < of_int (2 ^ 53)" using assms(3) by (simp only: of_int_less_iff)
    with assms(2) show ?thesis by simp
  qed
  from ilog2_le_52 [OF pos this] have e: "ilog2 x \<le> 52" .
  define q where "q = max (ilog2 x - 52) (- 1074)"
  have q: "q \<le> 0" using e by (simp add: q_def)
  have nd: "nearest_double x = of_int (round_even (x / pow2 q)) * pow2 q"
    using pos by (simp add: nearest_double_def q_def Let_def)
  have "x / pow2 q \<le> of_int N / pow2 q"
    using assms(2) pow2_pos [of q] by (simp add: divide_right_mono)
  then have "x / pow2 q \<le> of_int (N * 2 ^ nat (- q))"
    by (simp only: of_int_div_pow2 [OF q])
  from round_even_le [OF this] have "round_even (x / pow2 q) \<le> N * 2 ^ nat (- q)" .
  then have "(of_int (round_even (x / pow2 q)) :: rat) \<le> of_int (N * 2 ^ nat (- q))"
    by (simp only: of_int_le_iff)
  then have "of_int (round_even (x / pow2 q)) * pow2 q \<le> of_int (N * 2 ^ nat (- q)) * pow2 q"
    using pow2_pos [of q] by (simp add: mult_right_mono)
  then have up: "nearest_double x \<le> of_int N"
    by (simp only: nd of_int_mult_pow2 [OF q])
  have "0 \<le> x / pow2 q" using pos pow2_pos [of q] by simp
  from round_even_nonneg [OF this] have "0 \<le> of_int (round_even (x / pow2 q)) * pow2 q"
    using pow2_pos [of q] by simp
  with up nd show ?thesis by simp
qed

lemma to_number_below:
  assumes "0 \<le> x" and "x \<le> of_int N" and "N < 2 ^ 53"
  shows "\<exists>y. to_number x = Finite y \<and> 0 \<le> y \<and> y \<le> of_int N"
proof -
  from nearest_double_below [OF assms]
  have b: "0 \<le> nearest_double x" "nearest_double x \<le> of_int N" by simp_all
  show ?thesis
  proof (cases "nearest_double x = 0")
    case True
    with b show ?thesis by (simp add: to_number_def)
  next
    case False
    with b have pos: "0 < nearest_double x" by simp
    have "(of_int N :: rat) < of_int (2 ^ 53)" using assms(3) by (simp only: of_int_less_iff)
    with b(2) have "nearest_double x < 2 ^ 53" by simp
    from ilog2_le_52 [OF pos this] pos b False show ?thesis
      by (simp add: to_number_def Let_def)
  qed
qed

lemma to_number_of_int:
  assumes "0 \<le> N" and "N < 2 ^ 53"
  shows "to_number (of_int N) = Finite (of_int N)"
proof (cases "N = 0")
  case True
  then show ?thesis by (simp add: to_number_def nearest_double_def)
next
  case False
  with assms have pos: "0 < (of_int N :: rat)" by simp
  have lt: "(of_int N :: rat) < 2 ^ 53"
  proof -
    have "(of_int N :: rat) < of_int (2 ^ 53)" using assms(2) by (simp only: of_int_less_iff)
    then show ?thesis by simp
  qed
  from ilog2_le_52 [OF pos lt] have e: "ilog2 (of_int N) \<le> 52" .
  define q where "q = max (ilog2 (of_int N) - 52) (- 1074)"
  have q: "q \<le> 0" using e by (simp add: q_def)
  have "nearest_double (of_int N) = of_int (round_even (of_int N / pow2 q)) * pow2 q"
    using pos by (simp add: nearest_double_def q_def Let_def)
  also have "\<dots> = of_int N"
    by (simp only: of_int_div_pow2 [OF q] round_even_of_int of_int_mult_pow2 [OF q])
  finally have nd: "nearest_double (of_int N) = of_int N" .
  from e pos False show ?thesis
    by (simp add: to_number_def nd Let_def)
qed

lemma new_average_in_range:
  assumes a: "0 \<le> a" "a \<le> 5" and n: "0 \<le> n" "n < 2 ^ 50" and r: "1 \<le> r" "r \<le> 5"
  shows "rating_valid (js_div (js_add (js_mul (or_zero (Finite a)) (or_zero (Finite (of_int n))))
             (Finite r)) (js_add (or_zero (Finite (of_int n))) (Finite 1)))"
proof -
  have oz: "or_zero (Finite a) = Finite a" "or_zero (Finite (of_int n)) = Finite (of_int n)"
    by (auto simp: or_zero_def)
  have five_n: "5 * n + 5 < (2 ^ 53 :: int)" using n by simp
  have "0 \<le> a * of_int n" using a n by simp
  moreover have "a * of_int n \<le> of_int (5 * n)"
    using a n by (simp add: mult_right_mono)
  moreover have "5 * n < (2 ^ 53 :: int)" using n by simp
  ultimately obtain p where p: "to_number (a * of_int n) = Finite p" "0 \<le> p" "p \<le> of_int (5 * n)"
    using to_number_below by blast
  have "0 \<le> p + r" using p r by simp
  moreover have "p + r \<le> of_int (5 * n + 5)" using p r by simp
  ultimately obtain s where s: "to_number (p + r) = Finite s" "0 \<le> s" "s \<le> of_int (5 * n + 5)"
    using to_number_below five_n by blast
  have d: "to_number (of_int n + 1) = Finite (of_int (n + 1))"
    using to_number_of_int [of "n + 1"] n by simp
  have dpos: "0 < (of_int (n + 1) :: rat)" using n by simp
  have "s / of_int (n + 1) \<le> of_int 5"
  proof -
    have "s \<le> 5 * of_int (n + 1)" using s by simp
    with dpos show ?thesis by (simp add: pos_divide_le_eq)
  qed
  moreover have "0 \<le> s / of_int (n + 1)" using s dpos by simp
  ultimately obtain v where v: "to_number (s / of_int (n + 1)) = Finite v" "0 \<le> v" "v \<le> of_int 5"
    using to_number_below [of "s / of_int (n + 1)" 5] by auto
  have nz: "(of_int (n + 1) :: rat) \<noteq> 0" using dpos by simp
  show ?thesis
    using v nz by (simp add: oz js_mul.simps js_add.simps js_div.simps p s d)
qed

text \<open>
  The invariant of the loop of \<open>POST /orders\<close>: when every requested product exists and is
  active the loop runs to its end, appends one line per request item and adds that line's
  price times quantity to the running amount, in the order of the items.
\<close>

lemma collect_items_fold:
  assumes "\<forall>it \<in> set its. \<exists>p. ps (productId it) = Some p \<and> isActive p"
  shows "\<exists>new. collect_items ps its t lines
              = Inr (foldl js_add t (map (\<lambda>i. js_mul (item_price i) (item_quantity i)) new),
                     lines @ new)
           \<and> map item_quantity new = map quantity its
           \<and> map (\<lambda>i. Some (item_price i)) new
               = map (\<lambda>it. map_option p_price (ps (productId it))) its"
  using assms
proof (induction its arbitrary: t lines)
  case Nil
  show ?case by (rule exI [of _ "[]"]) simp
next
  case (Cons it its)
  from Cons.prems obtain p where p: "ps (productId it) = Some p" "isActive p"
    by auto
  let ?line = "\<lparr>item_product = productId it, item_name = p_name p, item_price = p_price p,
                 item_quantity = quantity it\<rparr>"
  from Cons.prems have "\<forall>it \<in> set its. \<exists>p. ps (productId it) = Some p \<and> isActive p"
    by simp
  from Cons.IH [OF this, of "js_add t (js_mul (p_price p) (quantity it))" "lines @ [?line]"]
  obtain new where new:
    "collect_items ps its (js_add t (js_mul (p_price p) (quantity it))) (lines @ [?line])
       = Inr (foldl js_add (js_add t (js_mul (p_price p) (quantity it)))
                (map (\<lambda>i. js_mul (item_price i) (item_quantity i)) new),
              (lines @ [?line]) @ new)"
    "map item_quantity new = map quantity its"
    "map (\<lambda>i. Some (item_price i)) new = map (\<lambda>it. map_option p_price (ps (productId it))) its"
    by blast
  show ?case
    by (rule exI [of _ "?line # new"]) (simp add: p new findById_present)
qed

text \<open>
  A string rating passes the range test as the number it reads as and is then
  concatenated: \<open>'3'\<close> on the product rated 4 by two users gives \<open>'83' / 3\<close>, which the
  schema refuses.
\<close>

lemma rate_product_string_rating:
  "rate_product ex_engine ''p1'' (Str ''3'') ex_world
     = (ex_world, (500, Message ''Product validation failed''))"
  by (simp add: ex_world_def ex_product_def ex_engine_def rate_product_def findById_def
      or_zero_def Let_def save_accepts_def eight eighty_three_thirds average_13_3)

text \<open>
  What the two gateway-driven handlers do once \<open>stripe\<close> is bound to a client: a verified
  \<open>payment_intent.succeeded\<close> event marks its order paid, handling it again changes
  nothing more, and a retrieved intent is answered with \<open>success: true\<close> whether or not
  an order was updated.
\<close>

lemma webhook_handler_marks_paid:
  assumes "constructEvent_outcome stripe raw sig secret = Inr event"
    and "ev_type event = ''payment_intent.succeeded''"
    and "map_of (pi_metadata (ev_object event)) ''orderId'' = Some k"
    and "orders w k = Some order"
  shows "webhook_handler stripe secret raw sig w =
           (w\<lparr>orders := (orders w)(k \<mapsto>
                 order\<lparr>paymentStatus := ''paid'', orderStatus := ''processing''\<rparr>)\<rparr>,
            (200, Received))"
  using assms by (simp add: webhook_handler_def findById_def)

lemma webhook_handler_idempotent:
  "fst (webhook_handler stripe secret raw sig (fst (webhook_handler stripe secret raw sig w)))
     = fst (webhook_handler stripe secret raw sig w)"
  by (auto simp: webhook_handler_def findById_Some_iff findById_def
      split: sum.splits option.splits)

lemma confirm_payment_handler_success_flag:
  assumes "retrieve_outcome stripe paymentIntentId = Inr paymentIntent"
  shows "snd (confirm_payment_handler stripe paymentIntentId w) = (200, Confirmed paymentIntent)"
    and "pi_status paymentIntent \<noteq> ''succeeded''
          \<or> findById (orders w) (map_of (pi_metadata paymentIntent) ''orderId'') = None
        \<Longrightarrow> orders (fst (confirm_payment_handler stripe paymentIntentId w)) = orders w"
  using assms
  by (auto simp: confirm_payment_handler_def Let_def split: option.splits)

text \<open>
  With a transporter at hand the contact handler answers 200 whatever \<open>sendMail\<close> does.
\<close>

lemma contact_handler_swallows_mail_errors:
  "truthy (c_name form) \<and> truthy (c_email form) \<and> truthy (c_subject form)
     \<and> truthy (c_message form) \<and> emailRegex_test (or_else (c_email form) []) \<Longrightarrow>
   snd (contact_handler (Some sendMail) env form w)
     = (200, ContactOk ''Message sent successfully! We will get back to you soon.'')"
  by (simp add: contact_handler_def)

section \<open>The order and payment lifecycle\<close>

text \<open>
  C1, as the code has it. For an order whose payment status is \<open>'paid'\<close>, webhook
  handling and payment confirmation (under any binding of \<open>stripe\<close>) leave the status
  \<open>'paid'\<close>, and the admin payment-slip verification writes \<open>'paid'\<close> or \<open>'failed'\<close>:
  none of the three sets it to \<open>'pending'\<close>.
\<close>

theorem paid_not_reset_by_gateway_or_review:
  assumes "orders w k = Some order" and "paymentStatus order = ''paid''"
  shows "map_option paymentStatus (orders (fst (webhook_handler stripe secret raw sig w)) k)
           = Some ''paid''
       \<and> map_option paymentStatus (orders (fst (confirm_payment_handler stripe pid w)) k)
           = Some ''paid''
       \<and> map_option paymentStatus (orders (fst (verify_payment_slip i approved notes' w)) k)
           \<noteq> Some ''pending''"
  using assms
  by (auto simp: webhook_handler_def confirm_payment_handler_def verify_payment_slip_def
      Let_def findById_Some_iff split: sum.splits option.splits prod.splits)

text \<open>
  The theorem at the approved bank-transfer order \<open>o2\<close>: a verified webhook event and a
  confirmation for another order, and a rejection of its slip.
\<close>

theorem paid_not_reset_by_gateway_or_review_witness:
  "orders ex_world ''o2'' = Some ex_bank_order \<and> paymentStatus ex_bank_order = ''paid''
   \<and> map_option paymentStatus
        (orders (fst (webhook_handler (Some ex_stripe) (Some ''whsec_test'') ''{}''
           (Some ''t=1,v1=5257a8'') ex_world)) ''o2'') = Some ''paid''
   \<and> map_option paymentStatus
        (orders (fst (confirm_payment_handler (Some ex_stripe) (Some ''pi_1'') ex_world)) ''o2'')
       = Some ''paid''
   \<and> map_option paymentStatus (orders (fst (verify_payment_slip ''o2'' False None ex_world)) ''o2'')
       \<noteq> Some ''pending''"
proof -
  have h1: "orders ex_world ''o2'' = Some ex_bank_order" by (simp add: ex_world_def)
  have h2: "paymentStatus ex_bank_order = ''paid''" by (simp add: ex_bank_order_def)
  from h1 h2 paid_not_reset_by_gateway_or_review [OF h1 h2, of "Some ex_stripe"
      "Some ''whsec_test''" "''{}''" "Some ''t=1,v1=5257a8''" "Some ''pi_1''" "''o2''" False None]
  show ?thesis by simp
qed

text \<open>
  C1 as stated fails: on the paid bank-transfer order \<open>o2\<close>, uploading another payment
  slip, and an admin status update whose body names \<open>paymentStatus: 'pending'\<close>, each
  leave the order \<open>'pending'\<close>.
\<close>

theorem paid_order_reset_to_pending:
  "map_option paymentStatus (orders ex_world ''o2'') = Some ''paid''
   \<and> map_option paymentStatus
       (orders (fst (payment_slip ex_errorHandler ex_storage 2000 2001 ''o2'' (Some ex_image)
          ex_world)) ''o2'')
     = Some ''pending''
   \<and> map_option paymentStatus
       (orders (fst (update_order_status 2000 ''o2'' None (Some ''pending'') ex_world)) ''o2'')
     = Some ''pending''"
  by (simp add: ex_world_def ex_bank_order_def ex_card_order_def ex_image_def ex_storage_def
      payment_slip_def upload_single_def fileFilter_def fileSize_def
      payment_slip_handler_def update_order_status_def updateData_def findById_def Let_def)

text \<open>
  C2. When verifying the webhook's signature throws, whether the header is missing or does
  not match the signing secret, the handler answers 400 with the error's message and
  returns the store and the call log as they were.
\<close>

theorem webhook_rejects_unverified:
  "constructEvent_outcome stripe raw sig secret = Inl err \<Longrightarrow>
   webhook_handler stripe secret raw sig w = (w, (400, Text (''Webhook Error: '' @ err)))"
  by (simp add: webhook_handler_def)

text \<open>The theorem at a request without a signature header.\<close>

theorem webhook_rejects_unverified_witness:
  "constructEvent_outcome (Some ex_stripe) ''{}'' None (Some ''whsec_test'')
     = Inl ''No signatures found matching the expected signature for payload''
   \<and> webhook_handler (Some ex_stripe) (Some ''whsec_test'') ''{}'' None ex_world
     = (ex_world, (400, Text (''Webhook Error: '' @
          ''No signatures found matching the expected signature for payload'')))"
proof -
  have h: "constructEvent_outcome (Some ex_stripe) ''{}'' None (Some ''whsec_test'')
     = Inl ''No signatures found matching the expected signature for payload''"
    by (simp add: constructEvent_outcome_def ex_stripe_def)
  from h webhook_rejects_unverified [OF h, of ex_world] show ?thesis by simp
qed

text \<open>
  C3. The webhook route as payments.js defines it never reaches the branch that marks an
  order paid: \<open>stripe\<close> is not declared in the module, so every request, whatever its
  signature and event, is answered 400 and the store is left as it was.
\<close>

theorem webhook_always_rejects:
  "webhook secret raw sig w = (w, (400, Text ''Webhook Error: stripe is not defined''))"
  by (simp add: webhook_def webhook_handler_def constructEvent_outcome_def module_stripe_def)

text \<open>
  The route at an event that a gateway client would verify as
  \<open>payment_intent.succeeded\<close> for the pending order \<open>o1\<close>: the order is not touched.
\<close>

theorem webhook_succeeded_event_ignored:
  "constructEvent_outcome (Some ex_stripe) ''{}'' (Some ''t=1,v1=5257a8'') (Some ''whsec_test'')
     = Inr \<lparr>ev_type = ''payment_intent.succeeded'', ev_object = ex_intent\<rparr>
   \<and> webhook (Some ''whsec_test'') ''{}'' (Some ''t=1,v1=5257a8'') ex_world
     = (ex_world, (400, Text ''Webhook Error: stripe is not defined''))
   \<and> map_option paymentStatus (orders ex_world ''o1'') = Some ''pending''"
  using webhook_always_rejects [of "Some ''whsec_test''" "''{}''" "Some ''t=1,v1=5257a8''" ex_world]
  by (simp add: constructEvent_outcome_def ex_stripe_def ex_world_def ex_card_order_def)

section \<open>Order creation\<close>

text \<open>
  C4. When every requested product exists and is active, the order that \<open>POST /orders\<close>
  builds has one line per request item, with the requested quantity and the product's
  price at that moment, and its \<open>totalAmount\<close> is the sum over the lines of price times
  quantity, each product and each addition being the double operation the code applies,
  from 0 in the order of the lines. The order is stored under its new identifier and
  returned with status 201 unless the Order schema refuses it.
\<close>

theorem create_order_total:
  assumes "\<forall>it \<in> set (req_items req). \<exists>p. products w (productId it) = Some p \<and> isActive p"
  shows "\<exists>order.
           create_order schema_ok new_id req_user req w =
             (if schema_ok order
              then (w\<lparr>orders := (orders w)(new_id \<mapsto> order)\<rparr>,
                    (201, OrderBody ''Order created successfully'' order))
              else (w, (400, Message ''Order validation failed'')))
         \<and> map item_quantity (items order) = map quantity (req_items req)
         \<and> map (\<lambda>i. Some (item_price i)) (items order)
             = map (\<lambda>it. map_option p_price (products w (productId it))) (req_items req)
         \<and> totalAmount order
             = foldl js_add (Finite 0)
                 (map (\<lambda>i. js_mul (item_price i) (item_quantity i)) (items order))"
proof -
  from collect_items_fold [OF assms, of "Finite 0" "[]"]
  obtain new where new:
    "collect_items (products w) (req_items req) (Finite 0) [] =
       Inr (foldl js_add (Finite 0) (map (\<lambda>i. js_mul (item_price i) (item_quantity i)) new),
            new)"
    "map item_quantity new = map quantity (req_items req)"
    "map (\<lambda>i. Some (item_price i)) new
       = map (\<lambda>it. map_option p_price (products w (productId it))) (req_items req)"
    by auto
  let ?order = "\<lparr>user = req_user,
      guestInfo = (if req_user \<noteq> None then None else req_guestInfo req),
      items = new,
      totalAmount =
        foldl js_add (Finite 0) (map (\<lambda>i. js_mul (item_price i) (item_quantity i)) new),
      paymentMethod = req_paymentMethod req,
      shippingAddress = req_shippingAddress req,
      orderNumber = ''CSH-'' @ padStart 6 CHR ''0'' (String_nat (card (dom (orders w)) + 1)),
      paymentStatus = ''pending'', orderStatus = ''pending'', paymentSlip = None,
      stripePaymentIntent = None, order_notes = None, processedAt = None,
      completedAt = None\<rparr>"
  show ?thesis
    unfolding create_order_def new(1)
    by (rule exI [of _ ?order]) (simp add: Let_def new(2,3))
qed

text \<open>
  The theorem at an order of three single copies of the product priced 0.1: the order is
  created with the total 0.30000000000000004, the double
  \<open>1351079888211149 / 2 ^ 52\<close>.
\<close>

theorem create_order_total_witness:
  "fst (snd (create_order ex_schema_ok ''o3'' (Some ''u1'') ex_req ex_world)) = 201
   \<and> map_option totalAmount
        (orders (fst (create_order ex_schema_ok ''o3'' (Some ''u1'') ex_req ex_world)) ''o3'')
       = Some (Finite (1351079888211149 / 4503599627370496))"
proof -
  have h: "\<forall>it \<in> set (req_items ex_req).
             \<exists>p. products ex_world (productId it) = Some p \<and> isActive p"
    by (simp add: ex_req_def ex_world_def ex_product_def)
  from create_order_total [OF h, of ex_schema_ok "''o3''" "Some ''u1''"]
  obtain order where o:
    "create_order ex_schema_ok ''o3'' (Some ''u1'') ex_req ex_world =
       (if ex_schema_ok order
        then (ex_world\<lparr>orders := (orders ex_world)(''o3'' \<mapsto> order)\<rparr>,
              (201, OrderBody ''Order created successfully'' order))
        else (ex_world, (400, Message ''Order validation failed'')))"
    "map item_quantity (items order) = map quantity (req_items ex_req)"
    "map (\<lambda>i. Some (item_price i)) (items order)
       = map (\<lambda>it. map_option p_price (products ex_world (productId it))) (req_items ex_req)"
    "totalAmount order
       = foldl js_add (Finite 0)
           (map (\<lambda>i. js_mul (item_price i) (item_quantity i)) (items order))"
    by blast
  from o(2,3) obtain a b c where abc: "items order = [a, b, c]"
    "item_quantity a = Finite 1" "item_quantity b = Finite 1" "item_quantity c = Finite 1"
    "item_price a = to_number (1 / 10)" "item_price b = to_number (1 / 10)"
    "item_price c = to_number (1 / 10)"
    by (auto simp: ex_req_def ex_world_def ex_product_def map_eq_Cons_conv)
  with o(4) have t: "totalAmount order = Finite (1351079888211149 / 4503599627370496)"
    by (simp add: three_tenths)
  have "create_order ex_schema_ok ''o3'' (Some ''u1'') ex_req ex_world
          = (ex_world\<lparr>orders := (orders ex_world)(''o3'' \<mapsto> order)\<rparr>,
              (201, OrderBody ''Order created successfully'' order))
        \<or> create_order ex_schema_ok ''o3'' (Some ''u1'') ex_req ex_world
          = (ex_world, (400, Message ''Order validation failed''))"
    using o(1) by (simp split: if_splits)
  moreover have "fst (snd (create_order ex_schema_ok ''o3'' (Some ''u1'') ex_req ex_world)) = 201"
    by (simp add: create_order_def ex_req_def ex_world_def ex_product_def findById_def
        ex_schema_ok_def Let_def)
  ultimately show ?thesis using t by auto
qed

section \<open>Product rating\<close>

text \<open>
  C5, as the code has it. For a numeric rating \<open>r\<close> with \<open>1 \<le> r \<le> 5\<close> on an existing
  active product whose stored average \<open>a\<close> lies within 0 and 5 and whose stored count
  \<open>c\<close> is a whole number with \<open>0 \<le> c < 2 ^ 50\<close>, the handler stores the average
  \<open>(a * c + r) / (c + 1)\<close>, computed in double arithmetic, and the count \<open>c + 1\<close>, and
  returns the product with status 200. For any stored average and count (each read as 0
  when it is NaN) it stores the two exactly when the computed average lies within the
  schema's bounds 0 and 5; otherwise it answers 500 and returns the store as it was. A
  numeric rating below 1 or above 5, and a missing rating, are answered 400 and the
  store is returned as it was.
\<close>

theorem rate_product_average:
  "(products w i = Some p \<and> isActive p \<and> rating_average p = Finite a \<and> 0 \<le> a \<and> a \<le> 5
      \<and> rating_count p = Finite (of_int n) \<and> 0 \<le> n \<and> n < 2 ^ 50 \<and> 1 \<le> r \<and> r \<le> 5 \<longrightarrow>
      rate_product eng i (Num (Finite r)) w =
        (w\<lparr>products := (products w)(i \<mapsto>
            p\<lparr>rating_average :=
                 js_div (js_add (js_mul (Finite a) (Finite (of_int n))) (Finite r))
                   (Finite (of_int (n + 1))),
              rating_count := Finite (of_int (n + 1))\<rparr>)\<rparr>,
         (200, ProductBody
            (p\<lparr>rating_average :=
                 js_div (js_add (js_mul (Finite a) (Finite (of_int n))) (Finite r))
                   (Finite (of_int (n + 1))),
               rating_count := Finite (of_int (n + 1))\<rparr>))))
   \<and> (products w i = Some p \<and> isActive p \<and> 1 \<le> r \<and> r \<le> 5 \<longrightarrow>
      rate_product eng i (Num (Finite r)) w =
        (let c = or_zero (rating_count p);
             avg = js_div (js_add (js_mul (or_zero (rating_average p)) c) (Finite r))
                     (js_add c (Finite 1))
         in if rating_valid avg
            then (w\<lparr>products := (products w)(i \<mapsto>
                      p\<lparr>rating_average := avg, rating_count := js_add c (Finite 1)\<rparr>)\<rparr>,
                  (200, ProductBody (p\<lparr>rating_average := avg,
                                        rating_count := js_add c (Finite 1)\<rparr>)))
            else (w, (500, Message ''Product validation failed''))))
   \<and> (r < 1 \<or> 5 < r \<longrightarrow>
        rate_product eng i (Num (Finite r)) w
          = (w, (400, Message ''Rating must be between 1 and 5'')))
   \<and> rate_product eng i Undefined w = (w, (400, Message ''Rating must be between 1 and 5''))"
proof (intro conjI impI)
  assume h: "products w i = Some p \<and> isActive p \<and> rating_average p = Finite a \<and> 0 \<le> a
      \<and> a \<le> 5 \<and> rating_count p = Finite (of_int n) \<and> 0 \<le> n \<and> n < 2 ^ 50 \<and> 1 \<le> r \<and> r \<le> 5"
  then have v: "rating_valid
      (js_div (js_add (js_mul (or_zero (Finite a)) (or_zero (Finite (of_int n)))) (Finite r))
         (js_add (or_zero (Finite (of_int n))) (Finite 1)))"
    by (simp add: new_average_in_range)
  have oz: "or_zero (Finite a) = Finite a" "or_zero (Finite (of_int n)) = Finite (of_int n)"
    by (auto simp: or_zero_def)
  have d: "js_add (Finite (of_int n)) (Finite 1) = Finite (of_int (n + 1))"
    using to_number_of_int [of "n + 1"] h by (simp add: js_add.simps)
  have r: "\<not> r < 1" "\<not> 5 < r" "r \<noteq> 0" using h by auto
  show "rate_product eng i (Num (Finite r)) w =
        (w\<lparr>products := (products w)(i \<mapsto>
            p\<lparr>rating_average :=
                 js_div (js_add (js_mul (Finite a) (Finite (of_int n))) (Finite r))
                   (Finite (of_int (n + 1))),
              rating_count := Finite (of_int (n + 1))\<rparr>)\<rparr>,
         (200, ProductBody
            (p\<lparr>rating_average :=
                 js_div (js_add (js_mul (Finite a) (Finite (of_int n))) (Finite r))
                   (Finite (of_int (n + 1))),
               rating_count := Finite (of_int (n + 1))\<rparr>)))"
    using h v r
    by (simp add: rate_product_def findById_present Let_def save_accepts_def oz d)
next
  assume h: "products w i = Some p \<and> isActive p \<and> 1 \<le> r \<and> r \<le> 5"
  have c: "js_add (or_zero (rating_count p)) (Finite 1) \<noteq> NaN"
    by (rule js_add_one_not_NaN) (rule or_zero_not_NaN)
  have r: "\<not> r < 1" "\<not> 5 < r" "r \<noteq> 0" using h by auto
  show "rate_product eng i (Num (Finite r)) w =
        (let c = or_zero (rating_count p);
             avg = js_div (js_add (js_mul (or_zero (rating_average p)) c) (Finite r))
                     (js_add c (Finite 1))
         in if rating_valid avg
            then (w\<lparr>products := (products w)(i \<mapsto>
                      p\<lparr>rating_average := avg, rating_count := js_add c (Finite 1)\<rparr>)\<rparr>,
                  (200, ProductBody (p\<lparr>rating_average := avg,
                                        rating_count := js_add c (Finite 1)\<rparr>)))
            else (w, (500, Message ''Product validation failed'')))"
    using h c r by (simp add: rate_product_def findById_present Let_def save_accepts_def)
next
  assume "r < 1 \<or> 5 < r"
  then show "rate_product eng i (Num (Finite r)) w
               = (w, (400, Message ''Rating must be between 1 and 5''))"
    by (auto simp: rate_product_def)
next
  show "rate_product eng i Undefined w = (w, (400, Message ''Rating must be between 1 and 5''))"
    by (simp add: rate_product_def)
qed

text \<open>
  The theorem at the product rated 4 by two users: a rating of 5 stores the average
  4.333333333333333, the double \<open>4878899596318037 / 2 ^ 50\<close>, and the count 3; ratings of
  6 and of 1/2 and a missing rating are refused.
\<close>

theorem rate_product_average_witness:
  "products ex_world ''p1'' = Some ex_product \<and> isActive ex_product
   \<and> rate_product ex_engine ''p1'' (Num (Finite 5)) ex_world =
       (ex_world\<lparr>products := (products ex_world)(''p1'' \<mapsto>
            ex_product\<lparr>rating_average := Finite (4878899596318037 / 1125899906842624),
                       rating_count := Finite 3\<rparr>)\<rparr>,
        (200, ProductBody
           (ex_product\<lparr>rating_average := Finite (4878899596318037 / 1125899906842624),
                       rating_count := Finite 3\<rparr>)))
   \<and> rate_product ex_engine ''p1'' (Num (Finite 6)) ex_world
       = (ex_world, (400, Message ''Rating must be between 1 and 5''))
   \<and> rate_product ex_engine ''p1'' (Num (Finite (1 / 2))) ex_world
       = (ex_world, (400, Message ''Rating must be between 1 and 5''))
   \<and> rate_product ex_engine ''p1'' Undefined ex_world
       = (ex_world, (400, Message ''Rating must be between 1 and 5''))"
proof -
  have h: "products ex_world ''p1'' = Some ex_product" "isActive ex_product"
    "rating_average ex_product = Finite 4" "rating_count ex_product = Finite (of_int 2)"
    "or_zero (rating_average ex_product) = Finite 4"
    "or_zero (rating_count ex_product) = Finite 2"
    by (simp_all add: ex_world_def ex_product_def or_zero_def)
  from rate_product_average [where w = ex_world and i = "''p1''" and p = ex_product
      and a = 4 and n = 2 and r = 5 and eng = ex_engine]
    rate_product_average [where w = ex_world and i = "''p1''" and p = ex_product
      and a = 4 and n = 2 and r = 6 and eng = ex_engine]
    rate_product_average [where w = ex_world and i = "''p1''" and p = ex_product
      and a = 4 and n = 2 and r = "1 / 2" and eng = ex_engine] h
  show ?thesis by (simp add: average_13_3 Let_def)
qed

text \<open>
  C5 as stated fails: on the active product \<open>p2\<close>, whose stored average is 4 and whose
  stored count is -1, a rating of 3 makes the new count 0 and the new average minus
  infinity; the save is refused, the handler answers 500 and nothing is stored.
\<close>

theorem rating_refused_at_negative_count:
  "map_option isActive (products ex_world ''p2'') = Some True
   \<and> map_option rating_average (products ex_world ''p2'') = Some (Finite 4)
   \<and> map_option rating_count (products ex_world ''p2'') = Some (Finite (- 1))
   \<and> rate_product ex_engine ''p2'' (Num (Finite 3)) ex_world
       = (ex_world, (500, Message ''Product validation failed''))"
  by (simp add: ex_world_def ex_miscounted_def ex_product_def rate_product_def findById_def
      or_zero_def Let_def save_accepts_def average_count_zero)

section \<open>Payment intents and gateway failures\<close>

text \<open>
  C6. create-payment-intent answers 200 exactly when the caller owns the order and the
  gateway returns an intent for the request the handler sends: an amount of
  \<open>totalAmount * 100\<close>, the double product, rounded to the nearest integer with a half
  going up, in \<open>usd\<close>, with the order's identifier and order number as metadata. In
  that case the gateway was asked once, the intent's identifier is stored on the order,
  and the body holds the intent's client secret and identifier.
\<close>

theorem payment_intent_amount:
  "create_payment_intent new_Stripe uid orderId w = (w', (200, b)) \<longleftrightarrow>
   (\<exists>stripe k order paymentIntent.
       new_Stripe = Inr stripe \<and> orderId = Some k \<and> orders w k = Some order
     \<and> user order = Some uid
     \<and> paymentIntents_create stripe
          \<lparr>amount = (case js_mul (totalAmount order) (Finite 100) of
                       Finite x \<Rightarrow> Finite (of_int \<lfloor>x + 1 / 2\<rfloor>) | y \<Rightarrow> y),
           currency = ''usd'',
           metadata = [(''orderId'', k), (''orderNumber'', orderNumber order)]\<rparr>
         = Inr paymentIntent
     \<and> w' = w\<lparr>calls := calls w @
                [CreateIntent
                  \<lparr>amount = (case js_mul (totalAmount order) (Finite 100) of
                               Finite x \<Rightarrow> Finite (of_int \<lfloor>x + 1 / 2\<rfloor>) | y \<Rightarrow> y),
                   currency = ''usd'',
                   metadata = [(''orderId'', k), (''orderNumber'', orderNumber order)]\<rparr>],
              orders := (orders w)(k \<mapsto>
                order\<lparr>stripePaymentIntent := Some (pi_id paymentIntent)\<rparr>)\<rparr>
     \<and> b = IntentCreated (client_secret paymentIntent) (pi_id paymentIntent))"
  (is "?L \<longleftrightarrow> ?R")
proof
  assume ?L
  then show ?R
    by (auto simp: create_payment_intent_def Let_def findById_Some_iff Math_round_cases
        split: sum.splits option.splits prod.splits if_splits)
next
  assume ?R
  then show ?L
    by (auto simp: create_payment_intent_def Let_def findById_def Math_round_cases)
qed

text \<open>
  The theorem at the card order \<open>o1\<close> of 1.005, whose double product with 100 is
  100.49999999999999: the gateway returns an intent for the amount 100, so the handler
  answers 200 and stores the intent's identifier.
\<close>

theorem payment_intent_amount_witness:
  "create_payment_intent (Inr ex_stripe) ''u1'' (Some ''o1'') ex_world
     = (ex_world\<lparr>calls := [CreateIntent \<lparr>amount = Finite 100, currency = ''usd'',
                     metadata = [(''orderId'', ''o1''), (''orderNumber'', ''CSH-000001'')]\<rparr>],
                 orders := (orders ex_world)(''o1'' \<mapsto>
                     ex_card_order\<lparr>stripePaymentIntent := Some ''pi_1''\<rparr>)\<rparr>,
        (200, IntentCreated ''pi_1_secret'' ''pi_1''))"
proof -
  have a: "(case js_mul (totalAmount ex_card_order) (Finite 100) of
              Finite x \<Rightarrow> Finite (of_int \<lfloor>x + 1 / 2\<rfloor>) | y \<Rightarrow> y) = Finite 100"
    using cents_of_1005 by (simp add: Math_round_cases ex_card_order_def)
  have o: "orders ex_world ''o1'' = Some ex_card_order" "calls ex_world = []"
    by (simp_all add: ex_world_def)
  have u: "user ex_card_order = Some ''u1''" "orderNumber ex_card_order = ''CSH-000001''"
    by (simp_all add: ex_card_order_def)
  have g: "paymentIntents_create ex_stripe
             \<lparr>amount = Finite 100, currency = ''usd'',
              metadata = [(''orderId'', ''o1''), (''orderNumber'', ''CSH-000001'')]\<rparr>
           = Inr \<lparr>pi_id = ''pi_1'', client_secret = ''pi_1_secret'',
                  pi_status = ''requires_payment_method'',
                  pi_metadata = [(''orderId'', ''o1''), (''orderNumber'', ''CSH-000001'')]\<rparr>"
    by (simp add: ex_stripe_def)
  show ?thesis
    apply (rule iffD2 [OF payment_intent_amount])
    apply (rule exI [of _ ex_stripe])
    apply (rule exI [of _ "''o1''"])
    apply (rule exI [of _ ex_card_order])
    apply (rule exI [of _ "\<lparr>pi_id = ''pi_1'', client_secret = ''pi_1_secret'',
                  pi_status = ''requires_payment_method'',
                  pi_metadata = [(''orderId'', ''o1''), (''orderNumber'', ''CSH-000001'')]\<rparr>"])
    apply (simp add: a o u g)
    done
qed

text \<open>
  C7. When the gateway's \<open>create\<close> throws, create-payment-intent answers 500 with the
  error's message, has made that one call and leaves every order as it was; the same
  holds when the client cannot be constructed. When the \<open>retrieve\<close> of confirm-payment
  throws, under any binding of \<open>stripe\<close>, the handler answers 500 with the message, has
  made at most that one call and leaves every order as it was.
\<close>

theorem gateway_failure_no_partial_state:
  "(orders w k = Some order \<and> user order = Some uid
      \<and> paymentIntents_create stripe
           \<lparr>amount = Math_round (js_mul (totalAmount order) (Finite 100)), currency = ''usd'',
            metadata = [(''orderId'', k), (''orderNumber'', orderNumber order)]\<rparr> = Inl e
    \<longrightarrow> snd (create_payment_intent (Inr stripe) uid (Some k) w) = (500, Message e)
      \<and> orders (fst (create_payment_intent (Inr stripe) uid (Some k) w)) = orders w
      \<and> calls (fst (create_payment_intent (Inr stripe) uid (Some k) w))
          = calls w @
             [CreateIntent
               \<lparr>amount = Math_round (js_mul (totalAmount order) (Finite 100)),
                currency = ''usd'',
                metadata = [(''orderId'', k), (''orderNumber'', orderNumber order)]\<rparr>])
   \<and> create_payment_intent (Inl e) uid orderId w = (w, (500, Message e))
   \<and> (retrieve_outcome binding paymentIntentId = Inl e
    \<longrightarrow> snd (confirm_payment_handler binding paymentIntentId w) = (500, Message e)
      \<and> orders (fst (confirm_payment_handler binding paymentIntentId w)) = orders w
      \<and> calls (fst (confirm_payment_handler binding paymentIntentId w))
          = calls w @ retrieve_calls binding paymentIntentId
      \<and> length (retrieve_calls binding paymentIntentId) \<le> 1)"
  by (simp add: create_payment_intent_def confirm_payment_handler_def findById_def Let_def
      retrieve_calls_def split: option.splits)

text \<open>The theorem at the card order \<open>o1\<close> with the gateway unreachable.\<close>

theorem gateway_failure_no_partial_state_witness:
  "orders ex_world ''o1'' = Some ex_card_order \<and> user ex_card_order = Some ''u1''
   \<and> retrieve_outcome (Some ex_down) (Some ''pi_1'')
        = Inl ''An error occurred with our connection to Stripe.''
   \<and> snd (create_payment_intent (Inr ex_down) ''u1'' (Some ''o1'') ex_world)
        = (500, Message ''An error occurred with our connection to Stripe.'')
   \<and> orders (fst (create_payment_intent (Inr ex_down) ''u1'' (Some ''o1'') ex_world))
        = orders ex_world
   \<and> calls (fst (create_payment_intent (Inr ex_down) ''u1'' (Some ''o1'') ex_world))
        = [CreateIntent \<lparr>amount = Finite 100, currency = ''usd'',
                     metadata = [(''orderId'', ''o1''), (''orderNumber'', ''CSH-000001'')]\<rparr>]
   \<and> snd (confirm_payment_handler (Some ex_down) (Some ''pi_1'') ex_world)
        = (500, Message ''An error occurred with our connection to Stripe.'')
   \<and> orders (fst (confirm_payment_handler (Some ex_down) (Some ''pi_1'') ex_world))
        = orders ex_world
   \<and> calls (fst (confirm_payment_handler (Some ex_down) (Some ''pi_1'') ex_world))
        = [RetrieveIntent (Some ''pi_1'')]"
proof -
  have h1: "orders ex_world ''o1'' = Some ex_card_order" by (simp add: ex_world_def)
  have h2: "user ex_card_order = Some ''u1''" by (simp add: ex_card_order_def)
  have m: "Math_round (js_mul (totalAmount ex_card_order) (Finite 100)) = Finite 100"
    by (simp add: ex_card_order_def cents_of_1005)
  have h3: "paymentIntents_create ex_down
           \<lparr>amount = Math_round (js_mul (totalAmount ex_card_order) (Finite 100)),
            currency = ''usd'',
            metadata = [(''orderId'', ''o1''), (''orderNumber'', orderNumber ex_card_order)]\<rparr>
        = Inl ''An error occurred with our connection to Stripe.''"
    by (simp add: ex_down_def)
  have h4: "retrieve_outcome (Some ex_down) (Some ''pi_1'')
        = Inl ''An error occurred with our connection to Stripe.''"
    by (simp add: retrieve_outcome_def ex_down_def)
  have c: "calls ex_world = []" by (simp add: ex_world_def)
  have n: "orderNumber ex_card_order = ''CSH-000001''" by (simp add: ex_card_order_def)
  from gateway_failure_no_partial_state [of ex_world "''o1''" ex_card_order "''u1''" ex_down
      "''An error occurred with our connection to Stripe.''" "Some ''pi_1''" "Some ex_down"
      "Some ''pi_1''"]
    h1 h2 h3 h4
  show ?thesis
    by (simp add: m c n retrieve_calls_def)
qed

text \<open>
  C10. The confirm-payment route as payments.js defines it never answers 200: \<open>stripe\<close>
  is not declared in the module, so every call is answered 500 with the message
  \<open>stripe is not defined\<close>, no gateway call is made and the store is left as it was.
\<close>

theorem confirm_payment_always_fails:
  "confirm_payment paymentIntentId w = (w, (500, Message ''stripe is not defined''))"
  by (simp add: confirm_payment_def confirm_payment_handler_def retrieve_outcome_def
      retrieve_calls_def module_stripe_def)

text \<open>The route at an intent that a gateway client would retrieve.\<close>

theorem confirm_payment_existing_intent_fails:
  "paymentIntents_retrieve ex_stripe (Some ''pi_1'') = Inr ex_intent
   \<and> confirm_payment (Some ''pi_1'') ex_world
       = (ex_world, (500, Message ''stripe is not defined''))"
  using confirm_payment_always_fails [of "Some ''pi_1''" ex_world]
  by (simp add: ex_stripe_def)

section \<open>Payment-slip upload\<close>

text \<open>
  C8. A payment-slip upload whose file's content type does not start with \<open>image/\<close> is
  handed to the error handler with the store and the call log as they were: nothing is
  sent to object storage and no order is changed. A file of more than 5 MB changes nothing
  either, and whenever the route does call object storage the file is an image of at
  most \<open>5 * 1024 * 1024\<close> bytes.
\<close>

theorem non_image_slip_rejected:
  "(\<not> prefix ''image/'' (mimetype file) \<longrightarrow>
      payment_slip errorHandler upload_stream now uploadedAt i (Some file) w
        = (w, errorHandler ''Only image files are allowed''))
   \<and> (5 * 1024 * 1024 < length (buffer file) \<longrightarrow>
        fst (payment_slip errorHandler upload_stream now uploadedAt i (Some file) w) = w)
   \<and> (calls (fst (payment_slip errorHandler upload_stream now uploadedAt i (Some file) w))
          \<noteq> calls w \<longrightarrow>
        prefix ''image/'' (mimetype file) \<and> length (buffer file) \<le> 5 * 1024 * 1024)"
  by (simp add: payment_slip_def upload_single_def fileFilter_def fileSize_def)

text \<open>
  The theorem at a PDF, at an image of 5 MB and one byte, and at a small image that is
  uploaded for the bank-transfer order \<open>o2\<close>.
\<close>

theorem non_image_slip_rejected_witness:
  "\<not> prefix ''image/'' (mimetype ex_pdf)
   \<and> payment_slip ex_errorHandler ex_storage 2000 2001 ''o2'' (Some ex_pdf) ex_world
       = (ex_world, (500, Message ''Only image files are allowed''))
   \<and> 5 * 1024 * 1024 < length (buffer ex_huge)
   \<and> fst (payment_slip ex_errorHandler ex_storage 2000 2001 ''o2'' (Some ex_huge) ex_world)
       = ex_world
   \<and> calls (fst (payment_slip ex_errorHandler ex_storage 2000 2001 ''o2'' (Some ex_image)
        ex_world))
       = [StorageUpload ''slip_CSH-000002_2000'' (buffer ex_image)]
   \<and> prefix ''image/'' (mimetype ex_image) \<and> length (buffer ex_image) \<le> 5 * 1024 * 1024"
proof -
  have c: "calls (fst (payment_slip ex_errorHandler ex_storage 2000 2001 ''o2'' (Some ex_image)
        ex_world))
       = [StorageUpload ''slip_CSH-000002_2000'' (buffer ex_image)]"
    by (simp add: payment_slip_def upload_single_def fileFilter_def fileSize_def
        payment_slip_handler_def findById_def Let_def ex_image_def ex_world_def ex_bank_order_def
        ex_card_order_def ex_storage_def String_nat.simps)
  have e: "calls ex_world = []" by (simp add: ex_world_def)
  have p: "\<not> prefix ''image/'' (mimetype ex_pdf)" by (simp add: ex_pdf_def)
  have h: "5 * 1024 * 1024 < length (buffer ex_huge)" by (simp add: ex_huge_def)
  from non_image_slip_rejected [of ex_pdf ex_errorHandler ex_storage 2000 2001 "''o2''" ex_world]
    non_image_slip_rejected [of ex_huge ex_errorHandler ex_storage 2000 2001 "''o2''" ex_world]
    non_image_slip_rejected [of ex_image ex_errorHandler ex_storage 2000 2001 "''o2''" ex_world]
    c e p h
  show ?thesis by (simp add: ex_errorHandler_def)
qed

section \<open>Contact form\<close>

text \<open>
  C9. The contact route as contact.js defines it answers every valid submission with
  status 500: \<open>nodemailer.createTransporter\<close> is not a function, the call of line 26
  throws before any mail is attempted, and the outer \<open>catch\<close> answers.
\<close>

theorem contact_valid_submission_fails:
  "truthy (c_name form) \<and> truthy (c_email form) \<and> truthy (c_subject form)
     \<and> truthy (c_message form) \<and> emailRegex_test (or_else (c_email form) []) \<Longrightarrow>
   contact env form w = (w, (500, Message ''Failed to send message. Please try again later.''))"
  by (simp add: contact_def contact_handler_def nodemailer_createTransporter_def)

text \<open>The route at a complete form with a well-formed address.\<close>

theorem contact_valid_submission_fails_witness:
  "truthy (c_name ex_form) \<and> truthy (c_email ex_form) \<and> truthy (c_subject ex_form)
     \<and> truthy (c_message ex_form) \<and> emailRegex_test (or_else (c_email ex_form) [])
   \<and> contact ex_env ex_form ex_world
       = (ex_world, (500, Message ''Failed to send message. Please try again later.''))"
proof -
  have h: "truthy (c_name ex_form) \<and> truthy (c_email ex_form) \<and> truthy (c_subject ex_form)
     \<and> truthy (c_message ex_form) \<and> emailRegex_test (or_else (c_email ex_form) [])"
    by (simp add: ex_form_def truthy_def or_else_def emailRegex_test_def not_space_at_def)
  from h contact_valid_submission_fails [OF h, of ex_env ex_world] show ?thesis by simp
qed

end
